theory Spec2Isabelle
  imports Complex_Main "HOL-Library.Sublist" "HOL-Library.List_Lexorder" "HOL-Library.Char_ord"
    "HOL-Library.AList"
begin

section \<open>Feedback update protocol (\<open>update_feedback_in_bigquery\<close>, app.py lines 45-64)\<close>

text \<open>
  Characters that cannot be written inside an Isabelle string literal.
\<close>

definition squote :: char where
  "squote = CHR 0x27"

definition dquote :: char where
  "dquote = CHR 0x22"

definition backslash :: char where
  "backslash = CHR 0x5C"

definition newline :: char where
  "newline = CHR 0x0A"

text \<open>
  Python's \<^verbatim>\<open>s.replace("'", "''")\<close>: every single quote is replaced by two, every
  other character is kept.
\<close>

fun replace_quote :: "string \<Rightarrow> string" where
  "replace_quote [] = []"
| "replace_quote (c # cs) =
     (if c = squote then squote # squote # replace_quote cs else c # replace_quote cs)"

text \<open>
  \<^verbatim>\<open>escaped_explanation = explanation.replace("'", "''") if explanation else ""\<close>.
  The text area hands over a string; the empty string is falsy.
\<close>

definition escaped_explanation :: "string \<Rightarrow> string" where
  "escaped_explanation explanation =
     (if explanation \<noteq> [] then replace_quote explanation else [])"

text \<open>
  Python prints a boolean inside an f-string as \<^verbatim>\<open>True\<close> or \<^verbatim>\<open>False\<close>.
\<close>

definition py_str_bool :: "bool \<Rightarrow> string" where
  "py_str_bool b = (if b then ''True'' else ''False'')"

text \<open>
  The f-string of lines 52-58, cut at its two interpolated text values. The table name is
  a constant of the template.
\<close>

definition target_table :: string where
  "target_table = ''real-estate-alerter.real_estate_alerter_output.newsworthy''"

definition query_header :: string where
  "query_header =
     newline # ''    UPDATE `'' @ target_table @ ''`'' @
     newline # ''    SET '' @
     newline # ''        is_newsworthy = ''"

definition query_head :: "string \<Rightarrow> string" where
  "query_head feedback_label =
     query_header @ py_str_bool (feedback_label = ''Newsworthy'') @ '','' @
     newline # ''        feedback = '' @ [squote]"

definition where_clause :: "string \<Rightarrow> string" where
  "where_clause transaction_id =
     newline # ''    WHERE transaction_id = '' @ [squote] @ transaction_id @ [squote] @
     newline # ''    ''"

definition query_tail :: "string \<Rightarrow> string" where
  "query_tail transaction_id = squote # where_clause transaction_id"

definition update_query :: "string \<Rightarrow> string \<Rightarrow> string \<Rightarrow> string" where
  "update_query transaction_id feedback_label explanation =
     query_head feedback_label @ escaped_explanation explanation @ query_tail transaction_id"





text \<open>
  The store that receives the statement reads a quoted string literal by its own lexical
  rules. GoogleSQL, the dialect of the store the statement is sent to, ends a
  single-quoted literal at the first quote that is not preceded by a backslash, and reads
  a backslash together with the next character as an escape sequence. \<open>bq_literal acc s\<close>
  scans \<open>s\<close>, the text after the opening quote, and returns the literal's value and the
  text that follows the closing quote; \<open>None\<close> is an unterminated literal or an escape
  sequence outside the ones listed.
\<close>

definition bq_unescape :: "char \<Rightarrow> char option" where
  "bq_unescape c =
     (if c = squote \<or> c = dquote \<or> c = backslash \<or> c = CHR ''`'' \<or> c = CHR ''?'' then Some c
      else if c = CHR ''n'' then Some newline
      else if c = CHR ''t'' then Some (CHR 0x09)
      else if c = CHR ''r'' then Some (CHR 0x0D)
      else None)"

fun bq_literal :: "string \<Rightarrow> string \<Rightarrow> (string \<times> string) option" where
  "bq_literal acc [] = None"
| "bq_literal acc [c] = (if c = squote then Some (rev acc, []) else None)"
| "bq_literal acc (c # d # cs) =
     (if c = squote then Some (rev acc, d # cs)
      else if c = backslash
      then (case bq_unescape d of None \<Rightarrow> None | Some e \<Rightarrow> bq_literal (e # acc) cs)
      else bq_literal (c # acc) (d # cs))"

text \<open>
  The quoting rule the escape of line 50 is written for: a quote inside a literal is
  written twice, and a single quote ends the literal.
\<close>

fun doubled_literal :: "string \<Rightarrow> string \<Rightarrow> (string \<times> string) option" where
  "doubled_literal acc [] = None"
| "doubled_literal acc [c] = (if c = squote then Some (rev acc, []) else None)"
| "doubled_literal acc (c # d # cs) =
     (if c = squote
      then (if d = squote then doubled_literal (squote # acc) cs else Some (rev acc, d # cs))
      else doubled_literal (c # acc) (d # cs))"

text \<open>
  The statement keeps the template's structure when the literal opened after
  \<^verbatim>\<open>feedback = \<close> ends at the template's own closing quote, so that the text after it is the
  template's \<^verbatim>\<open>WHERE\<close> clause and nothing else.
\<close>

definition keeps_structure :: "string \<Rightarrow> string \<Rightarrow> bool" where
  "keeps_structure tid explanation =
     (map_option snd (bq_literal [] (escaped_explanation explanation @ query_tail tid))
        = Some (where_clause tid))"

definition extra_assignment :: string where
  "extra_assignment = '', newsworthy_alert = '' @ [dquote] @ ''pwned'' @ [dquote] @ '' -- ''"

definition append_old_feedback :: string where
  "append_old_feedback = '' || feedback -- ''"

section \<open>Values of a cell\<close>

text \<open>
  A cell of an uploaded table, or a value of a parsed mapping literal: Python's \<^verbatim>\<open>None\<close>,
  a boolean, an integer, a float (\<open>PNaN\<close> is the float that pandas puts in an empty cell), a
  string or a dict with its items in the order they were written.
\<close>

datatype pyval =
    PNone
  | PBool bool
  | PInt int
  | PFloat real
  | PNaN
  | PStr string
  | PDict "(pyval \<times> pyval) list"

section \<open>\<open>has_celebrity\<close> (\<open>main\<close>, lines 182-184)\<close>

text \<open>
  \<^verbatim>\<open>lambda x: "No" if x == '0' else x\<close>. Python's \<^verbatim>\<open>==\<close> between a value and the string
  \<^verbatim>\<open>'0'\<close> holds for that string and for nothing of another type.
\<close>

definition has_celebrity_value :: "pyval \<Rightarrow> pyval" where
  "has_celebrity_value x = (if x = PStr ''0'' then PStr ''No'' else x)"

section \<open>Records of the loaded table (\<open>load_and_process_bigquery_data\<close>, lines 14-43)\<close>

text \<open>
  \<open>created_date\<close> is a \<^verbatim>\<open>datetime.date\<close> (line 42). Python's date type holds years 1 to
  9999, months 1 to 12 and a day of that month.
\<close>

record date =
  year :: nat
  month :: nat
  day :: nat

definition is_leap :: "nat \<Rightarrow> bool" where
  "is_leap y = (y mod 4 = 0 \<and> (y mod 100 \<noteq> 0 \<or> y mod 400 = 0))"

definition days_in_month :: "nat \<Rightarrow> nat \<Rightarrow> nat" where
  "days_in_month y m =
     (if m = 2 then (if is_leap y then 29 else 28)
      else if m = 4 \<or> m = 6 \<or> m = 9 \<or> m = 11 then 30 else 31)"

definition valid_date :: "date \<Rightarrow> bool" where
  "valid_date d =
     (1 \<le> year d \<and> year d \<le> 9999 \<and> 1 \<le> month d \<and> month d \<le> 12 \<and>
      1 \<le> day d \<and> day d \<le> days_in_month (year d) (month d))"

text \<open>
  \<^verbatim>\<open>str\<close> of a date is its ISO format, \<^verbatim>\<open>"%04d-%02d-%02d"\<close>: for the years, months and
  days of a date these are exactly four, two and two digits.
\<close>

definition digit_char :: "nat \<Rightarrow> char" where
  "digit_char n = char_of (48 + n)"

definition pad2 :: "nat \<Rightarrow> string" where
  "pad2 n = [digit_char (n div 10 mod 10), digit_char (n mod 10)]"

definition pad4 :: "nat \<Rightarrow> string" where
  "pad4 n =
     [digit_char (n div 1000 mod 10), digit_char (n div 100 mod 10),
      digit_char (n div 10 mod 10), digit_char (n mod 10)]"

definition date_str :: "date \<Rightarrow> string" where
  "date_str d = pad4 (year d) @ ''-'' @ pad2 (month d) @ ''-'' @ pad2 (day d)"

text \<open>
  One row of the loaded frame, with the columns that the filters and the statistics read.
  A null of a nullable column is \<open>None\<close>; in a float column pandas holds it as NaN.
\<close>

record transaction =
  transaction_id :: string
  property_district :: "string option"
  property_building_type_category :: "string option"
  created_date :: date
  transaction_sum :: "real option"
  price_per_sqm :: "real option"
  property_number_of_rooms :: "int option"

section \<open>Filters (\<open>main\<close>, lines 189-225)\<close>

text \<open>
  What the four widgets hand over: three lists of selected options (strings; the date
  options are the \<^verbatim>\<open>str\<close> of the dates) and the two integer ends of the slider.
\<close>

record filter_criteria =
  district_filter :: "string list"
  type_filter :: "string list"
  date_filter :: "string list"
  price_range :: "int \<times> int"

text \<open>
  \<^verbatim>\<open>Series.isin(values)\<close> on a nullable column of strings: a null is in no list of strings.
\<close>

definition isin :: "string option \<Rightarrow> string list \<Rightarrow> bool" where
  "isin v vs = (case v of None \<Rightarrow> False | Some x \<Rightarrow> x \<in> set vs)"

text \<open>
  \<^verbatim>\<open>(transaction_sum >= price_range[0]) & (transaction_sum <= price_range[1])\<close>: every
  comparison with NaN is false.
\<close>

definition in_price_range :: "real option \<Rightarrow> int \<times> int \<Rightarrow> bool" where
  "in_price_range s pr =
     (case s of None \<Rightarrow> False | Some x \<Rightarrow> real_of_int (fst pr) \<le> x \<and> x \<le> real_of_int (snd pr))"

text \<open>
  Lines 214-225: a selection that is an empty list is falsy and its filter is skipped; the
  price mask is always applied. A boolean mask keeps the rows in their order.
\<close>

definition apply_filters :: "filter_criteria \<Rightarrow> transaction list \<Rightarrow> transaction list" where
  "apply_filters c df =
     (let filtered1 =
            (if district_filter c \<noteq> []
             then filter (\<lambda>r. isin (property_district r) (district_filter c)) df else df);
          filtered2 =
            (if type_filter c \<noteq> []
             then filter (\<lambda>r. isin (property_building_type_category r) (type_filter c)) filtered1
             else filtered1);
          filtered3 =
            (if date_filter c \<noteq> []
             then filter (\<lambda>r. date_str (created_date r) \<in> set (date_filter c)) filtered2
             else filtered2)
      in filter (\<lambda>r. in_price_range (transaction_sum r) (price_range c)) filtered3)"

text \<open>
  The slider's default value (lines 207-212): \<^verbatim>\<open>int\<close> of the column's minimum and maximum.
  \<^verbatim>\<open>min\<close> and \<^verbatim>\<open>max\<close> skip nulls; on a column with no number they are NaN and \<^verbatim>\<open>int\<close>
  raises, which is \<open>None\<close> here. \<^verbatim>\<open>int\<close> of a float truncates towards zero.
\<close>

definition py_int :: "real \<Rightarrow> int" where
  "py_int x = (if 0 \<le> x then \<lfloor>x\<rfloor> else \<lceil>x\<rceil>)"

definition dropna :: "'a option list \<Rightarrow> 'a list" where
  "dropna vs = map the (filter (\<lambda>v. v \<noteq> None) vs)"

definition default_price_range :: "transaction list \<Rightarrow> (int \<times> int) option" where
  "default_price_range df =
     (case dropna (map transaction_sum df) of
        [] \<Rightarrow> None
      | x # xs \<Rightarrow> Some (py_int (fold min xs x), py_int (fold max xs x)))"

text \<open>
  Three rows for the examples: two with a price and one whose \<open>transaction_sum\<close> is null.
\<close>

definition priced_row :: transaction where
  "priced_row =
     \<lparr>transaction_id = ''T1'', property_district = Some ''Frogner'',
      property_building_type_category = Some ''Apartment'',
      created_date = \<lparr>year = 2024, month = 3, day = 7\<rparr>,
      transaction_sum = Some 100, price_per_sqm = Some 10, property_number_of_rooms = Some 3\<rparr>"

definition unpriced_row :: transaction where
  "unpriced_row =
     \<lparr>transaction_id = ''T2'', property_district = Some ''Sentrum'',
      property_building_type_category = Some ''House'',
      created_date = \<lparr>year = 2024, month = 11, day = 30\<rparr>,
      transaction_sum = None, price_per_sqm = None, property_number_of_rooms = None\<rparr>"

definition dear_row :: transaction where
  "dear_row =
     \<lparr>transaction_id = ''T3'', property_district = Some ''Frogner'',
      property_building_type_category = Some ''House'',
      created_date = \<lparr>year = 2024, month = 12, day = 1\<rparr>,
      transaction_sum = Some 300, price_per_sqm = Some 30, property_number_of_rooms = Some 5\<rparr>"

definition no_selection :: "int \<times> int \<Rightarrow> filter_criteria" where
  "no_selection pr = \<lparr>district_filter = [], type_filter = [], date_filter = [], price_range = pr\<rparr>"

section \<open>The literal parser (\<^verbatim>\<open>ast.literal_eval\<close>)\<close>

text \<open>
  The exceptions that the upload path can meet. \<open>OutsideFragment\<close> is no exception of
  Python's: it marks a text that the parser below does not decide.
\<close>

datatype py_error = ValueError | SyntaxError | KeyError | AttributeError | OutsideFragment

text \<open>
  \<^verbatim>\<open>ast.literal_eval\<close> is the standard library's. \<open>process_json_column\<close> below takes the
  parser as an argument, so what is proved of it for every parser holds for the library's.
  For the examples, \<open>literal_eval\<close> reads a fragment of Python's literals: an atom, or a
  dict display whose keys and values are atoms, where an atom is a string in single or
  double quotes without backslash, a decimal integer, \<^verbatim>\<open>None\<close>, \<^verbatim>\<open>True\<close> or \<^verbatim>\<open>False\<close>;
  blanks may stand between tokens. On such a text it returns Python's value. An
  unterminated string is a \<^verbatim>\<open>SyntaxError\<close>, a bare name a \<^verbatim>\<open>ValueError\<close>, a cell that is
  not a string a \<^verbatim>\<open>ValueError\<close>, as in Python; every other text is \<open>OutsideFragment\<close>.
\<close>

datatype token = TLBrace | TRBrace | TColon | TComma | TStr string | TNum string | TName string

datatype lex_state = LStart | LStr char string | LNum string | LName string

definition is_digit :: "char \<Rightarrow> bool" where
  "is_digit c = (c \<in> set ''0123456789'')"

definition is_name_char :: "char \<Rightarrow> bool" where
  "is_name_char c = (c \<in> set ''abcdefghijklmnopqrstuvwxyzABCDEFGHIJKLMNOPQRSTUVWXYZ_'')"

definition start_step :: "char \<Rightarrow> py_error + token list \<times> lex_state" where
  "start_step c =
     (if c = CHR '' '' then Inr ([], LStart)
      else if c = CHR ''{'' then Inr ([TLBrace], LStart)
      else if c = CHR ''}'' then Inr ([TRBrace], LStart)
      else if c = CHR '':'' then Inr ([TColon], LStart)
      else if c = CHR '','' then Inr ([TComma], LStart)
      else if c = squote \<or> c = dquote then Inr ([], LStr c [])
      else if is_digit c then Inr ([], LNum [c])
      else if is_name_char c then Inr ([], LName [c])
      else Inl OutsideFragment)"

definition after_token :: "token \<Rightarrow> char \<Rightarrow> py_error + token list \<times> lex_state" where
  "after_token t c =
     (case start_step c of Inl e \<Rightarrow> Inl e | Inr (ts, st) \<Rightarrow> Inr (t # ts, st))"

fun lex_step :: "lex_state \<Rightarrow> char \<Rightarrow> py_error + token list \<times> lex_state" where
  "lex_step LStart c = start_step c"
| "lex_step (LStr q acc) c =
     (if c = q then Inr ([TStr (rev acc)], LStart)
      else if c = backslash then Inl OutsideFragment
      else if c = newline then Inl SyntaxError
      else Inr ([], LStr q (c # acc)))"
| "lex_step (LNum acc) c =
     (if is_digit c then Inr ([], LNum (c # acc)) else after_token (TNum (rev acc)) c)"
| "lex_step (LName acc) c =
     (if is_name_char c \<or> is_digit c then Inr ([], LName (c # acc))
      else after_token (TName (rev acc)) c)"

fun lex_finish :: "lex_state \<Rightarrow> py_error + token list" where
  "lex_finish LStart = Inr []"
| "lex_finish (LStr q acc) = Inl SyntaxError"
| "lex_finish (LNum acc) = Inr [TNum (rev acc)]"
| "lex_finish (LName acc) = Inr [TName (rev acc)]"

fun lex :: "lex_state \<Rightarrow> string \<Rightarrow> py_error + token list" where
  "lex st [] = lex_finish st"
| "lex st (c # cs) =
     (case lex_step st c of
        Inl e \<Rightarrow> Inl e
      | Inr (ts, st') \<Rightarrow> (case lex st' cs of Inl e \<Rightarrow> Inl e | Inr ts' \<Rightarrow> Inr (ts @ ts')))"

definition digits_value :: "string \<Rightarrow> int" where
  "digits_value ds = foldl (\<lambda>n c. 10 * n + (of_char c - 48)) 0 ds"

fun atom :: "token \<Rightarrow> py_error + pyval" where
  "atom (TStr s) = Inr (PStr s)"
| "atom (TNum ds) =
     (if 1 < length ds \<and> hd ds = CHR ''0'' then Inl OutsideFragment else Inr (PInt (digits_value ds)))"
| "atom (TName n) =
     (if n = ''None'' then Inr PNone
      else if n = ''True'' then Inr (PBool True)
      else if n = ''False'' then Inr (PBool False)
      else Inl ValueError)"
| "atom t = Inl OutsideFragment"

definition dict_item :: "token \<Rightarrow> token \<Rightarrow> py_error + pyval \<times> pyval" where
  "dict_item k v =
     (case atom k of Inl e \<Rightarrow> Inl e
      | Inr k' \<Rightarrow> (case atom v of Inl e \<Rightarrow> Inl e | Inr v' \<Rightarrow> Inr (k', v')))"

fun dict_items :: "token list \<Rightarrow> py_error + (pyval \<times> pyval) list" where
  "dict_items (k # c # v # s # rest) =
     (if c = TColon \<and> s = TRBrace \<and> rest = []
      then (case dict_item k v of Inl e \<Rightarrow> Inl e | Inr kv \<Rightarrow> Inr [kv])
      else if c = TColon \<and> s = TComma
      then (case dict_item k v of Inl e \<Rightarrow> Inl e
            | Inr kv \<Rightarrow> (case dict_items rest of Inl e \<Rightarrow> Inl e | Inr kvs \<Rightarrow> Inr (kv # kvs)))
      else Inl OutsideFragment)"
| "dict_items ts = (if ts = [TRBrace] then Inr [] else Inl OutsideFragment)"

definition literal_eval_str :: "string \<Rightarrow> py_error + pyval" where
  "literal_eval_str s =
     (case lex LStart s of
        Inl e \<Rightarrow> Inl e
      | Inr [] \<Rightarrow> Inl SyntaxError
      | Inr [t] \<Rightarrow> atom t
      | Inr (t # ts) \<Rightarrow>
          (if t = TLBrace
           then (case dict_items ts of Inl e \<Rightarrow> Inl e | Inr kvs \<Rightarrow> Inr (PDict kvs))
           else Inl OutsideFragment))"

definition literal_eval :: "pyval \<Rightarrow> py_error + pyval" where
  "literal_eval x = (case x of PStr s \<Rightarrow> literal_eval_str s | _ \<Rightarrow> Inl ValueError)"

section \<open>The uploaded table (\<open>DataProcessor\<close>, lines 66-120)\<close>

text \<open>
  A frame is its columns in order, each a name and the cells of the rows.
  \<^verbatim>\<open>df[name] = values\<close> replaces the column of that name where it stands, or adds the
  column at the end.
\<close>

type_synonym dataframe = "(string \<times> pyval list) list"

definition set_column :: "string \<Rightarrow> pyval list \<Rightarrow> dataframe \<Rightarrow> dataframe" where
  "set_column name cells df = AList.update name cells df"

text \<open>
  \<^verbatim>\<open>Series.apply(f)\<close> calls \<open>f\<close> on the cells in order; the first exception ends it.
\<close>

fun apply_each :: "('a \<Rightarrow> py_error + 'b) \<Rightarrow> 'a list \<Rightarrow> py_error + 'b list" where
  "apply_each f [] = Inr []"
| "apply_each f (x # xs) =
     (case f x of
        Inl e \<Rightarrow> Inl e
      | Inr y \<Rightarrow> (case apply_each f xs of Inl e \<Rightarrow> Inl e | Inr ys \<Rightarrow> Inr (y # ys)))"

definition extracted_fields :: "string list" where
  "extracted_fields =
     [''transaction_id'', ''transaction_sum'', ''property_district'', ''transaction_date'',
      ''property_number_of_rooms'', ''property_number_of_bathrooms'', ''property_area'',
      ''building_footprint'', ''price_per_sqm'', ''has_celebrity'', ''transaction_type'',
      ''property_building_type_category'', ''built_year'', ''document_number'']"

text \<open>
  \<^verbatim>\<open>data.get(field, None)\<close>: of the items with that key the last one written counts; a value
  that is no dict has no \<^verbatim>\<open>get\<close> and raises \<^verbatim>\<open>AttributeError\<close>.
\<close>

definition is_dict :: "pyval \<Rightarrow> bool" where
  "is_dict x = (case x of PDict kvs \<Rightarrow> True | _ \<Rightarrow> False)"

definition dict_get :: "pyval \<Rightarrow> string \<Rightarrow> pyval" where
  "dict_get data field =
     (case data of
        PDict kvs \<Rightarrow> (case map_of (rev kvs) (PStr field) of None \<Rightarrow> PNone | Some v \<Rightarrow> v)
      | _ \<Rightarrow> PNone)"

text \<open>
  \<open>process_json_column\<close> (lines 69-106) with \<^verbatim>\<open>column_idx='0'\<close>. The whole body stands in one
  \<^verbatim>\<open>try\<close>: whatever is raised is reported once with \<^verbatim>\<open>st.error\<close> and the frame is returned
  as it is at that moment. The result is the frame and the exception reported, if any.
  The field columns are assigned after the loop over the rows, so a row that is not a
  dict leaves the frame with the \<^verbatim>\<open>property_data\<close> column only.
\<close>

definition process_json_column ::
  "(pyval \<Rightarrow> py_error + pyval) \<Rightarrow> dataframe \<Rightarrow> dataframe \<times> py_error option" where
  "process_json_column lit df =
     (case map_of df ''0'' of
        None \<Rightarrow> (df, Some KeyError)
      | Some cells \<Rightarrow>
          (case apply_each lit cells of
             Inl e \<Rightarrow> (df, Some e)
           | Inr datas \<Rightarrow>
               (let df1 = set_column ''property_data'' datas df in
                if list_all is_dict datas
                then (fold (\<lambda>field. set_column field (map (\<lambda>data. dict_get data field) datas))
                        extracted_fields df1, None)
                else (df1, Some AttributeError))))"

text \<open>
  \<^verbatim>\<open>str.strip()\<close> removes the whitespace at both ends (here: the whitespace of ASCII).
\<close>

definition is_space :: "char \<Rightarrow> bool" where
  "is_space c =
     (c \<in> set [CHR 0x09, CHR 0x0A, CHR 0x0B, CHR 0x0C, CHR 0x0D,
               CHR 0x1C, CHR 0x1D, CHR 0x1E, CHR 0x1F, CHR 0x20])"

definition py_strip :: "string \<Rightarrow> string" where
  "py_strip s = rev (dropWhile is_space (rev (dropWhile is_space s)))"

definition strip_or_empty :: "pyval \<Rightarrow> pyval" where
  "strip_or_empty x = (case x of PStr s \<Rightarrow> PStr (py_strip s) | _ \<Rightarrow> PStr [])"

definition clean_description :: "dataframe \<Rightarrow> dataframe" where
  "clean_description df =
     (case map_of df ''1'' of
        None \<Rightarrow> df
      | Some cells \<Rightarrow> set_column ''description'' (map strip_or_empty cells) df)"

definition process_alert :: "dataframe \<Rightarrow> dataframe" where
  "process_alert df =
     (case map_of df ''2'' of
        None \<Rightarrow> df
      | Some cells \<Rightarrow> set_column ''newsworthy_alert'' (map strip_or_empty cells) df)"

text \<open>
  The upload branch of \<open>main\<close> (lines 150-153): the three steps in a row.
\<close>

definition process_upload ::
  "(pyval \<Rightarrow> py_error + pyval) \<Rightarrow> dataframe \<Rightarrow> dataframe \<times> py_error option" where
  "process_upload lit df =
     (case process_json_column lit df of
        (df1, err) \<Rightarrow> (process_alert (clean_description df1), err))"

text \<open>
  The rows of the examples.
\<close>

definition quoted :: "string \<Rightarrow> string" where
  "quoted s = squote # s @ [squote]"

definition example_mapping :: string where
  "example_mapping =
     ''{'' @ quoted ''transaction_id'' @ '': '' @ quoted ''T1'' @ '', '' @
     quoted ''transaction_sum'' @ '': 5000000, '' @
     quoted ''property_district'' @ '': '' @ quoted ''Frogner'' @ ''}''"

definition broken_mapping :: string where
  "broken_mapping = ''{'' @ quoted ''transaction_id'' @ '': '' @ squote # ''T2''"

definition example_upload :: dataframe where
  "example_upload =
     [(''0'', [PStr example_mapping]),
      (''1'', [PStr '' A nice flat '']),
      (''2'', [PStr '' Celebrity sale ''])]"

definition upload_with_broken_row :: dataframe where
  "upload_with_broken_row =
     [(''0'', [PStr example_mapping, PStr broken_mapping]),
      (''1'', [PStr '' A nice flat '', PStr ''Second flat'']),
      (''2'', [PStr '' Celebrity sale '', PNaN])]"

section \<open>Statistics by district (\<open>main\<close>, lines 383-400)\<close>














section \<open>The feedback statement: its target table\<close>


section \<open>The feedback statement: the explanation literal\<close>

text \<open>
  What the escape of line 50 achieves: under the quote-doubling rule the escaped
  explanation, followed by the template's closing quote and any text that does not start
  with a quote, is read back as one literal whose value is the explanation.
\<close>

lemma doubled_literal_closing_quote:
  "rest = [] \<or> hd rest \<noteq> squote \<Longrightarrow> doubled_literal acc (squote # rest) = Some (rev acc, rest)"
  by (cases rest) auto

lemma doubled_literal_replace_quote:
  "rest = [] \<or> hd rest \<noteq> squote \<Longrightarrow>
   doubled_literal acc (replace_quote e @ squote # rest) = Some (rev acc @ e, rest)"
proof (induction e arbitrary: acc)
  case Nil
  then show ?case by (simp add: doubled_literal_closing_quote)
next
  case (Cons c e)
  show ?case
  proof (cases "c = squote")
    case True
    then show ?thesis using Cons.IH [OF Cons.prems, of "squote # acc"] by simp
  next
    case False
    obtain d ds where shape: "replace_quote e @ squote # rest = d # ds"
      by (cases "replace_quote e @ squote # rest") auto
    have "doubled_literal acc (c # d # ds) = doubled_literal (c # acc) (d # ds)"
      using False by simp
    then show ?thesis
      using False shape Cons.IH [OF Cons.prems, of "c # acc"] by simp
  qed
qed

lemma doubled_literal_explanation:
  "doubled_literal [] (escaped_explanation e @ query_tail tid) =
     Some (e, where_clause tid)"
proof -
  have "hd (where_clause tid) \<noteq> squote"
    by (simp add: where_clause_def newline_def squote_def)
  then show ?thesis
    using doubled_literal_replace_quote [of "where_clause tid" "[]" e]
    by (cases e) (simp_all add: escaped_explanation_def query_tail_def)
qed

text \<open>
  The store's own rule knows no doubled quote: under \<open>bq_literal\<close> the first of the two
  quotes ends the literal. So the doubling is no escape for the store, and an explanation
  that starts with a quote already leaves the template's structure.
\<close>

lemma quote_ends_store_literal: "\<not> keeps_structure tid (squote # e)"
  by (simp add: keeps_structure_def escaped_explanation_def query_tail_def where_clause_def
      squote_def newline_def)

text \<open>
  Claim C2, evaluated where it fails. The explanation
  \<^verbatim>\<open>\', newsworthy_alert = "pwned" -- \<close> is escaped to
  \<^verbatim>\<open>\'', newsworthy_alert = "pwned" -- \<close>: the backslash is left as it is, so the store reads
  \<^verbatim>\<open>\'\<close> as an escaped quote and the doubled quote's second half as the end of the literal.
  The literal's value is a single quote, and the rest of the explanation is statement text:
  one more column assignment, then a comment that hides the template's closing quote. The
  statement's structure is not the template's.
\<close>

theorem explanation_backslash_adds_assignment:
  "update_query ''T1'' ''Newsworthy'' (backslash # squote # extra_assignment) =
     query_head ''Newsworthy'' @ backslash # squote # squote # extra_assignment @ query_tail ''T1'' \<and>
   bq_literal [] (escaped_explanation (backslash # squote # extra_assignment) @ query_tail ''T1'') =
     Some ([squote], extra_assignment @ query_tail ''T1'') \<and>
   \<not> keeps_structure ''T1'' (backslash # squote # extra_assignment)"
  by (simp add: update_query_def escaped_explanation_def keeps_structure_def extra_assignment_def
      query_tail_def where_clause_def bq_unescape_def
      squote_def dquote_def backslash_def newline_def)

text \<open>
  Claim C9, evaluated where it fails. The explanation \<^verbatim>\<open>\' || feedback -- \<close> yields the
  assignment \<^verbatim>\<open>feedback = '\'' || feedback -- '\<close>: the literal is a single quote, and what
  follows it concatenates the stored feedback to it. The value written depends on the value
  stored, so a second run of the same statement writes a longer text than the first.
\<close>

theorem explanation_backslash_reads_old_feedback:
  "update_query ''T1'' ''Newsworthy'' (backslash # squote # append_old_feedback) =
     query_head ''Newsworthy'' @ backslash # squote # squote # append_old_feedback @ query_tail ''T1'' \<and>
   bq_literal [] (escaped_explanation (backslash # squote # append_old_feedback) @ query_tail ''T1'') =
     Some ([squote], append_old_feedback @ query_tail ''T1'')"
  by (simp add: update_query_def escaped_explanation_def append_old_feedback_def
      query_tail_def where_clause_def bq_unescape_def
      squote_def dquote_def backslash_def newline_def)

section \<open>\<open>has_celebrity\<close>\<close>

lemma has_celebrity_value_passthrough:
  "x \<noteq> PStr ''0'' \<Longrightarrow> has_celebrity_value x = x"
  by (simp add: has_celebrity_value_def)

text \<open>
  Claim C6, evaluated where it fails. The string \<^verbatim>\<open>"0"\<close> becomes \<^verbatim>\<open>"No"\<close> and other values
  pass through, but the comparison is with the string only: the integer 0 and the float
  0.0 are not equal to \<^verbatim>\<open>'0'\<close>, so a numeric zero is passed through as it is and is not
  mapped to \<^verbatim>\<open>"No"\<close>.
\<close>

theorem has_celebrity_numeric_zero_unchanged:
  "has_celebrity_value (PInt 0) = PInt 0 \<and>
   has_celebrity_value (PFloat 0) = PFloat 0 \<and>
   has_celebrity_value (PInt 0) \<noteq> PStr ''No'' \<and>
   has_celebrity_value (PStr ''0'') = PStr ''No''"
  by (simp add: has_celebrity_value_def)

section \<open>Filters\<close>

lemma apply_filters_conj:
  "apply_filters c df =
     filter (\<lambda>r. (district_filter c = [] \<or> isin (property_district r) (district_filter c)) \<and>
                 (type_filter c = [] \<or> isin (property_building_type_category r) (type_filter c)) \<and>
                 (date_filter c = [] \<or> date_str (created_date r) \<in> set (date_filter c)) \<and>
                 in_price_range (transaction_sum r) (price_range c)) df"
  by (auto simp: apply_filters_def Let_def intro: filter_cong)

lemma isin_image: "isin v vs = (v \<in> Some ` set vs)"
  by (cases v) (auto simp: isin_def)

lemma in_price_range_bounds:
  "in_price_range s (lo, hi) = (\<exists>x. s = Some x \<and> real_of_int lo \<le> x \<and> x \<le> real_of_int hi)"
  by (cases s) (auto simp: in_price_range_def)

text \<open>
  Claim C7. The filtered table is the table restricted to the rows that satisfy all four
  dimension predicates at once; a dimension whose selection is empty constrains nothing;
  the price bounds are inclusive; and the result is a subsequence of the table, so the rows
  keep their relative order.
\<close>

theorem apply_filters_is_conjunction:
  "apply_filters c df =
     filter (\<lambda>r. (district_filter c = [] \<or> property_district r \<in> Some ` set (district_filter c)) \<and>
                 (type_filter c = [] \<or>
                    property_building_type_category r \<in> Some ` set (type_filter c)) \<and>
                 (date_filter c = [] \<or> date_str (created_date r) \<in> set (date_filter c)) \<and>
                 (\<exists>x. transaction_sum r = Some x \<and>
                      real_of_int (fst (price_range c)) \<le> x \<and>
                      x \<le> real_of_int (snd (price_range c)))) df \<and>
   subseq (apply_filters c df) df"
proof
  have "in_price_range s (price_range c) =
          (\<exists>x. s = Some x \<and> real_of_int (fst (price_range c)) \<le> x \<and>
               x \<le> real_of_int (snd (price_range c)))" for s
    using in_price_range_bounds [of s "fst (price_range c)" "snd (price_range c)"] by simp
  then show "apply_filters c df =
     filter (\<lambda>r. (district_filter c = [] \<or> property_district r \<in> Some ` set (district_filter c)) \<and>
                 (type_filter c = [] \<or>
                    property_building_type_category r \<in> Some ` set (type_filter c)) \<and>
                 (date_filter c = [] \<or> date_str (created_date r) \<in> set (date_filter c)) \<and>
                 (\<exists>x. transaction_sum r = Some x \<and>
                      real_of_int (fst (price_range c)) \<le> x \<and>
                      x \<le> real_of_int (snd (price_range c)))) df"
    by (simp add: apply_filters_conj isin_image)
  show "subseq (apply_filters c df) df"
    by (simp add: apply_filters_conj)
qed

text \<open>
  Claim C5 fails where it says that a row with a null \<open>transaction_sum\<close> is included under
  the full range. For the table of \<open>priced_row\<close>, \<open>unpriced_row\<close> and \<open>dear_row\<close> the
  slider's default range is the whole of the data, from 100 to 300; with that range and no
  selection the two priced rows are kept and the row with the null sum is dropped.
\<close>

theorem null_sum_dropped_under_full_range:
  "default_price_range [priced_row, unpriced_row, dear_row] = Some (100, 300) \<and>
   transaction_sum unpriced_row = None \<and>
   apply_filters (no_selection (100, 300)) [priced_row, unpriced_row, dear_row] =
     [priced_row, dear_row]"
  by (simp add: default_price_range_def dropna_def py_int_def apply_filters_def no_selection_def
      in_price_range_def priced_row_def unpriced_row_def dear_row_def)

text \<open>
  Claim C5 as amended. A row with a null \<open>transaction_sum\<close> is in no filtered table,
  whatever the selections and the price range are: the full default range excludes it as
  every narrower range does.
\<close>

theorem null_sum_always_excluded:
  "transaction_sum r = None \<Longrightarrow> r \<notin> set (apply_filters c df)"
  by (simp add: apply_filters_conj in_price_range_def)

theorem null_sum_always_excluded_witness:
  "transaction_sum unpriced_row = None \<and>
   unpriced_row \<notin> set (apply_filters (no_selection (100, 100)) [priced_row, unpriced_row])"
proof -
  have h: "transaction_sum unpriced_row = None" by (simp add: unpriced_row_def)
  show ?thesis
    using h null_sum_always_excluded [OF h, of "no_selection (100, 100)" "[priced_row, unpriced_row]"]
    by simp
qed

section \<open>The date filter\<close>

lemma digit_char_inject: "a < 10 \<Longrightarrow> b < 10 \<Longrightarrow> digit_char a = digit_char b \<Longrightarrow> a = b"
proof -
  assume a: "a < 10" and b: "b < 10" and eq: "digit_char a = digit_char b"
  from eq have "(48 + a) mod 256 = (48 + b) mod 256"
    by (simp add: digit_char_def char_of_eq_iff take_bit_eq_mod)
  with a b show "a = b" by simp
qed

lemma div_mod_10_eq: "(x::nat) div 10 = y div 10 \<Longrightarrow> x mod 10 = y mod 10 \<Longrightarrow> x = y"
  by (metis div_mult_mod_eq)

lemma div_10_div_10: "(x::nat) div 10 div 10 = x div 100" "(x::nat) div 100 div 10 = x div 1000"
  using div_mult2_eq [of x 10 10] div_mult2_eq [of x 100 10] by simp_all

lemma pad2_inject: "m < 100 \<Longrightarrow> n < 100 \<Longrightarrow> pad2 m = pad2 n \<Longrightarrow> m = n"
proof -
  assume m: "m < 100" and n: "n < 100" and eq: "pad2 m = pad2 n"
  from eq have d: "m div 10 mod 10 = n div 10 mod 10" "m mod 10 = n mod 10"
    by (auto simp: pad2_def intro: digit_char_inject)
  have "m div 10 < 10" "n div 10 < 10"
    using m n by (simp_all add: less_mult_imp_div_less)
  with d(1) have "m div 10 = n div 10" by simp
  then show "m = n" using d(2) by (rule div_mod_10_eq)
qed

lemma pad4_inject: "m < 10000 \<Longrightarrow> n < 10000 \<Longrightarrow> pad4 m = pad4 n \<Longrightarrow> m = n"
proof -
  assume m: "m < 10000" and n: "n < 10000" and eq: "pad4 m = pad4 n"
  from eq have d: "m div 1000 mod 10 = n div 1000 mod 10" "m div 100 mod 10 = n div 100 mod 10"
    "m div 10 mod 10 = n div 10 mod 10" "m mod 10 = n mod 10"
    by (auto simp: pad4_def intro: digit_char_inject)
  have "m div 1000 < 10" "n div 1000 < 10"
    using m n by (simp_all add: less_mult_imp_div_less)
  with d(1) have "m div 1000 = n div 1000" by simp
  then have "m div 100 div 10 = n div 100 div 10" by (simp add: div_10_div_10)
  then have "m div 100 = n div 100" using d(2) by (rule div_mod_10_eq)
  then have "m div 10 div 10 = n div 10 div 10" by (simp add: div_10_div_10)
  then have "m div 10 = n div 10" using d(3) by (rule div_mod_10_eq)
  then show "m = n" using d(4) by (rule div_mod_10_eq)
qed

lemma valid_date_bounds: "valid_date d \<Longrightarrow> year d < 10000 \<and> month d < 100 \<and> day d < 100"
  by (auto simp: valid_date_def days_in_month_def split: if_splits)

lemma date_str_inject:
  assumes "valid_date d" "valid_date e" "date_str d = date_str e"
  shows "d = e"
proof -
  from assms(3) have "pad4 (year d) = pad4 (year e)" "pad2 (month d) = pad2 (month e)"
    "pad2 (day d) = pad2 (day e)"
    by (simp_all add: date_str_def pad4_def pad2_def)
  then have "year d = year e" "month d = month e" "day d = day e"
    using valid_date_bounds [OF assms(1)] valid_date_bounds [OF assms(2)]
    by (auto intro: pad4_inject pad2_inject)
  then show ?thesis by simp
qed

lemma date_str_mem:
  assumes "valid_date d" "\<forall>e\<in>set sel. valid_date e"
  shows "date_str d \<in> set (map date_str sel) \<longleftrightarrow> d \<in> set sel"
  using assms by (auto dest: date_str_inject)

text \<open>
  Claim C4. The options of the date filter are the \<^verbatim>\<open>str\<close> of the dates, and the filter
  compares these strings. On dates the ISO format is one-to-one, so for every non-empty
  selection of dates the filter keeps, of the rows that pass the other dimensions, exactly
  those whose \<open>created_date\<close> is one of the selected dates.
\<close>

theorem date_filter_selects_equal_dates:
  assumes "\<forall>r\<in>set df. valid_date (created_date r)"
    and "\<forall>d\<in>set sel. valid_date d"
    and "sel \<noteq> []"
  shows "apply_filters (c\<lparr>date_filter := map date_str sel\<rparr>) df =
           filter (\<lambda>r. created_date r \<in> set sel) (apply_filters (c\<lparr>date_filter := []\<rparr>) df)"
proof -
  have mem: "(date_str (created_date r) \<in> date_str ` set sel) = (created_date r \<in> set sel)"
    if "r \<in> set df" for r
    using that assms(1) date_str_mem [OF _ assms(2), of "created_date r"] by simp
  have "filter (\<lambda>r. A r \<and> B r \<and> date_str (created_date r) \<in> date_str ` set sel \<and> C r) df =
        filter (\<lambda>r. A r \<and> B r \<and> C r \<and> created_date r \<in> set sel) df" for A B C
    by (rule filter_cong) (auto simp: mem)
  then show ?thesis
    using assms(3) by (simp add: apply_filters_conj)
qed

theorem date_filter_selects_equal_dates_witness:
  "valid_date (created_date priced_row) \<and> valid_date (created_date unpriced_row) \<and>
   valid_date \<lparr>year = 2024, month = 3, day = 7\<rparr> \<and>
   apply_filters ((no_selection (0, 200))\<lparr>date_filter := map date_str [\<lparr>year = 2024, month = 3, day = 7\<rparr>]\<rparr>)
       [priced_row, unpriced_row] = [priced_row] \<and>
   filter (\<lambda>r. created_date r \<in> set [\<lparr>year = 2024, month = 3, day = 7\<rparr>])
       (apply_filters ((no_selection (0, 200))\<lparr>date_filter := []\<rparr>) [priced_row, unpriced_row]) = [priced_row]"
proof -
  have h1: "\<forall>r\<in>set [priced_row, unpriced_row]. valid_date (created_date r)"
    by (simp add: priced_row_def unpriced_row_def valid_date_def days_in_month_def)
  have h2: "\<forall>d\<in>set [\<lparr>year = 2024, month = 3, day = 7\<rparr>]. valid_date d"
    by (simp add: valid_date_def days_in_month_def)
  have r: "filter (\<lambda>r. created_date r \<in> set [\<lparr>year = 2024, month = 3, day = 7\<rparr>])
       (apply_filters ((no_selection (0, 200))\<lparr>date_filter := []\<rparr>) [priced_row, unpriced_row]) = [priced_row]"
    by (simp add: apply_filters_def no_selection_def in_price_range_def priced_row_def unpriced_row_def)
  show ?thesis
    using h1 h2 r
      date_filter_selects_equal_dates [OF h1 h2, of "no_selection (0, 200)"]
    by simp
qed

section \<open>The uploaded table\<close>

lemma map_of_set_column: "map_of (set_column name cells df) = (map_of df)(name \<mapsto> cells)"
  by (simp add: set_column_def update_conv')

lemma apply_each_fails:
  "x \<in> set xs \<Longrightarrow> f x = Inl e0 \<Longrightarrow> \<exists>e. apply_each f xs = Inl e"
  by (induction xs) (auto split: sum.splits)

lemma process_json_column_fields:
  assumes "map_of df ''0'' = Some cells" "apply_each lit cells = Inr datas" "list_all is_dict datas"
    and "field \<in> set extracted_fields"
  shows "map_of (fst (process_json_column lit df)) field = Some (map (\<lambda>data. dict_get data field) datas)"
  using assms by (auto simp: process_json_column_def extracted_fields_def map_of_set_column)

lemma upload_keeps_other_columns:
  "name \<noteq> ''description'' \<Longrightarrow> name \<noteq> ''newsworthy_alert'' \<Longrightarrow>
   map_of (process_alert (clean_description df)) name = map_of df name"
  by (simp add: process_alert_def clean_description_def map_of_set_column split: option.splits)

lemma upload_description:
  "map_of df ''1'' = Some ds \<Longrightarrow>
   map_of (process_alert (clean_description df)) ''description'' = Some (map strip_or_empty ds)"
  by (simp add: process_alert_def clean_description_def map_of_set_column split: option.splits)

lemma upload_alert:
  "map_of df ''2'' = Some as \<Longrightarrow>
   map_of (process_alert (clean_description df)) ''newsworthy_alert'' = Some (map strip_or_empty as)"
  by (simp add: process_alert_def clean_description_def map_of_set_column split: option.splits)

text \<open>
  Claim C1 fails on a table of two rows whose first mapping parses and whose second is cut
  off inside a string. The first row parses on its own, yet \<open>process_json_column\<close> returns
  the table as it came and reports the second row's \<^verbatim>\<open>SyntaxError\<close>: after the upload no
  \<open>transaction_id\<close> column exists, for the first row as little as for the second. The
  description column is there for both rows.
\<close>

theorem broken_row_aborts_all_rows:
  "literal_eval (PStr example_mapping) =
     Inr (PDict [(PStr ''transaction_id'', PStr ''T1''), (PStr ''transaction_sum'', PInt 5000000),
                 (PStr ''property_district'', PStr ''Frogner'')]) \<and>
   literal_eval (PStr broken_mapping) = Inl SyntaxError \<and>
   process_json_column literal_eval upload_with_broken_row =
     (upload_with_broken_row, Some SyntaxError) \<and>
   map_of (fst (process_upload literal_eval upload_with_broken_row)) ''transaction_id'' = None \<and>
   map_of (fst (process_upload literal_eval upload_with_broken_row)) ''description'' =
     Some [PStr ''A nice flat'', PStr ''Second flat'']"
  by code_simp

text \<open>
  Claim C1 as amended. When the mapping of any row fails to parse, whatever the parser's
  exception is, \<open>process_json_column\<close> reports one exception and returns the table
  unchanged, so that no row, parsed or not, gets a canonical field: after the upload each
  of the fourteen field columns is what it was in the file (absent, for a file of the
  three positional columns). The description and the alert of every row are still
  trimmed and kept.
\<close>

theorem parse_failure_returns_table_unchanged:
  assumes "map_of df ''0'' = Some cells"
    and "cell \<in> set cells"
    and "lit cell = Inl e0"
  shows "(\<exists>e. process_json_column lit df = (df, Some e) \<and>
              process_upload lit df = (process_alert (clean_description df), Some e)) \<and>
         (\<forall>field\<in>set extracted_fields.
            map_of (fst (process_upload lit df)) field = map_of df field) \<and>
         (\<forall>ds. map_of df ''1'' = Some ds \<longrightarrow>
            map_of (fst (process_upload lit df)) ''description'' = Some (map strip_or_empty ds)) \<and>
         (\<forall>as. map_of df ''2'' = Some as \<longrightarrow>
            map_of (fst (process_upload lit df)) ''newsworthy_alert'' = Some (map strip_or_empty as))"
proof -
  from apply_each_fails [where f = lit and x = cell and xs = cells and ?e0.0 = e0] assms(2,3)
  obtain e where e: "apply_each lit cells = Inl e"
    by blast
  have pj: "process_json_column lit df = (df, Some e)"
    using assms(1) e by (simp add: process_json_column_def)
  then have pu: "process_upload lit df = (process_alert (clean_description df), Some e)"
    by (simp add: process_upload_def)
  have "map_of (fst (process_upload lit df)) field = map_of df field"
    if "field \<in> set extracted_fields" for field
  proof -
    from that have "field \<noteq> ''description''" "field \<noteq> ''newsworthy_alert''"
      by (auto simp: extracted_fields_def)
    then show ?thesis by (simp add: pu upload_keeps_other_columns)
  qed
  with pj pu show ?thesis
    by (simp add: upload_description upload_alert)
qed

theorem parse_failure_returns_table_unchanged_witness:
  "map_of upload_with_broken_row ''0'' = Some [PStr example_mapping, PStr broken_mapping] \<and>
   literal_eval (PStr broken_mapping) = Inl SyntaxError \<and>
   (\<exists>e. process_json_column literal_eval upload_with_broken_row = (upload_with_broken_row, Some e)) \<and>
   map_of (fst (process_upload literal_eval upload_with_broken_row)) ''transaction_sum'' = None"
proof -
  have h1: "map_of upload_with_broken_row ''0'' = Some [PStr example_mapping, PStr broken_mapping]"
    by (simp add: upload_with_broken_row_def)
  have h2: "PStr broken_mapping \<in> set [PStr example_mapping, PStr broken_mapping]"
    by simp
  have h3: "literal_eval (PStr broken_mapping) = Inl SyntaxError"
    by code_simp
  have none: "map_of upload_with_broken_row ''transaction_sum'' = None"
    by (simp add: upload_with_broken_row_def)
  have field: "''transaction_sum'' \<in> set extracted_fields"
    by (simp add: extracted_fields_def)
  from parse_failure_returns_table_unchanged
      [where lit = literal_eval and df = upload_with_broken_row and cell = "PStr broken_mapping"
         and cells = "[PStr example_mapping, PStr broken_mapping]" and ?e0.0 = SyntaxError]
    h1 h2 h3 field none
  show ?thesis by auto
qed

text \<open>
  Claim C3, evaluated on its row. The mapping's three fields, the trimmed alert and the
  trimmed description are all there, and no exception is reported; but the description is
  stored in the column \<open>description\<close>, and the table has no column
  \<open>property_description\<close>. The sum is the integer of the literal.
\<close>

theorem example_row_description_column:
  "snd (process_upload literal_eval example_upload) = None \<and>
   map_of (fst (process_upload literal_eval example_upload)) ''transaction_id'' = Some [PStr ''T1''] \<and>
   map_of (fst (process_upload literal_eval example_upload)) ''transaction_sum'' = Some [PInt 5000000] \<and>
   map_of (fst (process_upload literal_eval example_upload)) ''property_district'' =
     Some [PStr ''Frogner''] \<and>
   map_of (fst (process_upload literal_eval example_upload)) ''newsworthy_alert'' =
     Some [PStr ''Celebrity sale''] \<and>
   map_of (fst (process_upload literal_eval example_upload)) ''description'' =
     Some [PStr ''A nice flat''] \<and>
   map_of (fst (process_upload literal_eval example_upload)) ''property_description'' = None"
  by code_simp

section \<open>Statistics by district\<close>












end
